theory Spec2Isabelle
  imports Main "HOL-Library.Sublist" "HOL-Library.Multiset"
begin

section \<open>Python strings\<close>

text \<open>
  A Python \<open>str\<close> is modelled as a \<open>string\<close> holding its UTF-8 bytes: the emoji of the
  source are written byte by byte, and the case mappings below are the ASCII part of
  \<open>str.lower\<close>, \<open>str.upper\<close> and \<open>str.title\<close> (bytes from 128 on pass unchanged).
\<close>

definition NL :: string where
  "NL = [CHR 0x0A]"

definition crystal_ball :: string where
  "crystal_ball = [CHR 0xF0, CHR 0x9F, CHR 0x94, CHR 0xAE]"

definition arrows_emoji :: string where
  "arrows_emoji = [CHR 0xF0, CHR 0x9F, CHR 0x94, CHR 0x84]"

definition up_arrow_emoji :: string where
  "up_arrow_emoji = [CHR 0xE2, CHR 0xAC, CHR 0x86, CHR 0xEF, CHR 0xB8, CHR 0x8F]"

definition cross_mark :: string where
  "cross_mark = [CHR 0xE2, CHR 0x9D, CHR 0x8C]"

definition isupper :: "char \<Rightarrow> bool" where
  "isupper c = (65 \<le> (of_char c :: nat) \<and> (of_char c :: nat) \<le> 90)"

definition islower :: "char \<Rightarrow> bool" where
  "islower c = (97 \<le> (of_char c :: nat) \<and> (of_char c :: nat) \<le> 122)"

definition tolower :: "char \<Rightarrow> char" where
  "tolower c = (if isupper c then char_of ((of_char c :: nat) + 32) else c)"

definition toupper :: "char \<Rightarrow> char" where
  "toupper c = (if islower c then char_of ((of_char c :: nat) - 32) else c)"

definition lower :: "string \<Rightarrow> string" where
  "lower s = map tolower s"


text \<open>\<open>str.title\<close>: a cased character is upper-cased after an uncased one and
  lower-cased after a cased one.\<close>

fun title_from :: "bool \<Rightarrow> string \<Rightarrow> string" where
  "title_from previous_is_cased [] = []"
| "title_from previous_is_cased (c # cs) =
     (if islower c then (if previous_is_cased then c else toupper c) # title_from True cs
      else if isupper c then (if previous_is_cased then tolower c else c) # title_from True cs
      else c # title_from False cs)"

definition title :: "string \<Rightarrow> string" where
  "title s = title_from False s"

text \<open>\<open>s.replace(old, new)\<close> for one-character \<open>old\<close> and \<open>new\<close>, the only use in the source.\<close>

definition replace :: "char \<Rightarrow> char \<Rightarrow> string \<Rightarrow> string" where
  "replace old new s = map (\<lambda>c. if c = old then new else c) s"

fun join :: "string \<Rightarrow> string list \<Rightarrow> string" where
  "join sep [] = []"
| "join sep [x] = x"
| "join sep (x # y # ys) = x @ sep @ join sep (y # ys)"


text \<open>\<open>str(n)\<close> for integers: decimal digits, with a minus sign below zero.\<close>

fun str_nat :: "nat \<Rightarrow> string" where
  "str_nat n =
     (if n < 10 then [char_of (48 + n)]
      else str_nat (n div 10) @ [char_of (48 + n mod 10)])"

declare str_nat.simps [simp del]

definition str_int :: "int \<Rightarrow> string" where
  "str_int i = (if i < 0 then ''-'' @ str_nat (nat (- i)) else str_nat (nat i))"

text \<open>Truthiness of an optional string: \<open>None\<close> and the empty string are false.\<close>

fun truthy :: "string option \<Rightarrow> bool" where
  "truthy None = False"
| "truthy (Some s) = (s \<noteq> [])"


section \<open>The deck and the spreads\<close>

text \<open>A card's \<open>number\<close> is an integer or a string in the deck file; an f-string shows
  either through \<open>str\<close>.\<close>

datatype card_number = IntNumber int | StrNumber string

fun str_number :: "card_number \<Rightarrow> string" where
  "str_number (IntNumber i) = str_int i"
| "str_number (StrNumber s) = s"

record card =
  number :: card_number
  name :: string
  arcana :: string
  suit :: "string option"
  key_words :: "string list"
  meaning_up :: string
  meaning_rev :: string

text \<open>The dictionary \<open>SPREADS\<close>, as an association list in declaration order (the
  order in which \<open>SPREADS.items()\<close> lists it).\<close>

definition SPREADS :: "(string \<times> string list) list" where
  "SPREADS =
    [(''single'', [''Present'']),
     (''three_card'', [''Past'', ''Present'', ''Future'']),
     (''celtic_cross'', [''1. Present'', ''2. Challenge'', ''3. Past'', ''4. Future'',
                        ''5. Above'', ''6. Below'', ''7. Advice'', ''8. External'',
                        ''9. Hopes/Fears'', ''10. Outcome'']),
     (''relationship'', [''You'', ''Partner'', ''Connection'', ''Advice'']),
     (''career'', [''Current Situation'', ''Challenges'', ''Opportunities'', ''Outcome''])]"


section \<open>Errors and the random source\<close>

datatype error =
    ValueError
  | IndexError
  | FileNotFoundError
  | JSONDecodeError
  | ImageError

text \<open>
  The module \<open>random\<close> is a global generator. Here it is an explicit state: the raw
  outcomes the generator will give, and how many of them have been consumed. Every
  draw consumes one outcome, so a computation that leaves \<open>used\<close> unchanged made no draw.
\<close>

record rng =
  outcomes :: "nat \<Rightarrow> nat"
  used :: nat

definition randbelow :: "nat \<Rightarrow> rng \<Rightarrow> nat \<times> rng" where
  "randbelow n g = (outcomes g (used g) mod n, g\<lparr>used := Suc (used g)\<rparr>)"

text \<open>\<open>random.choice([True, False])\<close>: the element at index \<open>randbelow(2)\<close>.\<close>

definition choice_True_False :: "rng \<Rightarrow> bool \<times> rng" where
  "choice_True_False g = (let (i, g') = randbelow 2 g in ([True, False] ! i, g'))"


text \<open>
  \<open>random.sample(population, k)\<close>: \<open>ValueError\<close> when \<open>k\<close> exceeds the population,
  before any draw; otherwise selection from a pool, the chosen slot being refilled with
  the last live element of the pool. (CPython picks distinct indices by rejection
  instead when the population is large against \<open>k\<close>; both select \<open>k\<close> elements at
  pairwise distinct positions of the population.)
\<close>

fun sample_pool :: "'a list \<Rightarrow> nat \<Rightarrow> nat \<Rightarrow> rng \<Rightarrow> 'a list \<times> rng" where
  "sample_pool pool n 0 g = ([], g)"
| "sample_pool pool n (Suc k) g =
     (let (j, g1) = randbelow n g;
          x = pool ! j;
          pool' = pool[j := pool ! (n - 1)];
          (xs, g2) = sample_pool pool' (n - 1) k g1
      in (x # xs, g2))"

definition sample :: "'a list \<Rightarrow> nat \<Rightarrow> rng \<Rightarrow> (error + 'a list) \<times> rng" where
  "sample population k g =
     (if length population < k then (Inl ValueError, g)
      else (let (xs, g') = sample_pool population (length population) k g in (Inr xs, g')))"


section \<open>The class \<open>TarotReading\<close>\<close>

record TarotReading =
  cards :: "card list"
  spread_type :: string
  question :: "string option"
  positions :: "string list"

text \<open>\<open>__init__\<close>: the positions are \<open>SPREADS.get(spread_type, [])\<close>.\<close>

definition init_TarotReading :: "card list \<Rightarrow> string \<Rightarrow> string option \<Rightarrow> TarotReading" where
  "init_TarotReading cs st q =
     \<lparr>cards = cs, spread_type = st, question = q,
      positions = (case map_of SPREADS st of None \<Rightarrow> [] | Some ps \<Rightarrow> ps)\<rparr>"

text \<open>The text one pass of the loop of \<open>generate_reading\<close> appends, once the coin
  \<open>is_reversed\<close> is flipped.\<close>

definition card_section :: "card \<Rightarrow> string \<Rightarrow> bool \<Rightarrow> string" where
  "card_section c position is_reversed =
     (let orientation = (if is_reversed then ''Reversed '' @ arrows_emoji
                         else ''Upright '' @ up_arrow_emoji);
          meaning = (if is_reversed then meaning_rev c else meaning_up c)
      in ''### '' @ position @ NL
         @ ''**Card:** '' @ name c @ '' ('' @ orientation @ '')'' @ NL
         @ ''**Arcana:** '' @ title (arcana c) @ NL
         @ (if truthy (suit c) then ''**Suit:** '' @ title (the (suit c)) @ NL else [])
         @ ''**Keywords:** '' @ join '', '' (key_words c) @ NL
         @ ''**Interpretation:** '' @ meaning @ NL @ NL)"

text \<open>The loop over \<open>zip(self.cards, self.positions)\<close>: each pass flips its own coin
  with \<open>random.choice([True, False])\<close> and appends the section to \<open>reading\<close>.\<close>

fun reading_loop :: "(card \<times> string) list \<Rightarrow> string \<Rightarrow> rng \<Rightarrow> string \<times> rng" where
  "reading_loop [] reading g = (reading, g)"
| "reading_loop ((c, position) # rest) reading g =
     (let (is_reversed, g') = choice_True_False g
      in reading_loop rest (reading @ card_section c position is_reversed) g')"

definition heading :: "string \<Rightarrow> string" where
  "heading st = ''## '' @ crystal_ball @ '' Tarot Reading - ''
                @ title (replace (CHR ''_'') (CHR '' '') st) @ NL"

definition question_line :: "string option \<Rightarrow> string" where
  "question_line q = (if truthy q then ''**Question:** '' @ the q @ NL @ NL else [])"

definition generate_reading :: "TarotReading \<Rightarrow> rng \<Rightarrow> string \<times> rng" where
  "generate_reading r g =
     reading_loop (zip (cards r) (positions r))
       (heading (spread_type r) @ question_line (question r)) g"


section \<open>The image of one card\<close>

text \<open>
  Pillow is outside the repository. An image is modelled by what determines it: its
  mode, its size, its background and the drawing operations applied in order. The
  directory \<open>card_images\<close> is a parameter: for every path, either no file, or a file
  holding some picture together with the step of Pillow, if any, that fails on it.
\<close>

type_synonym color = "nat \<times> nat \<times> nat"

datatype pil_step = OpenStep | RotateStep | ResizeStep | PasteStep

datatype asset = NoFile | ImageFile nat "pil_step option"

type_synonym assets = "string \<Rightarrow> asset"

datatype draw_op =
    PasteArt nat bool "nat \<times> nat" "nat \<times> nat"
  | RectangleOutline "nat list" color nat
  | RectangleFill "nat list" color
  | DrawText "nat \<times> nat" string color string

record image =
  mode :: string
  dims :: "nat \<times> nat"
  background :: color
  drawn :: "draw_op list"

record encoded =
  format :: string
  picture :: image

definition card_path :: "card \<Rightarrow> string" where
  "card_path c =
     ''card_images/'' @ str_number (number c) @ ''_''
       @ replace (CHR '' '') (CHR ''_'') (lower (name c)) @ ''.jpg''"

text \<open>The body of the \<open>try\<close> block of \<open>create_card_image\<close>: \<open>Inl\<close> is an exception raised
  in it, which leaves the canvas as it was.\<close>

definition try_card_art :: "assets \<Rightarrow> card \<Rightarrow> bool \<Rightarrow> image \<Rightarrow> error + image" where
  "try_card_art fs c is_reversed img =
     (case fs (card_path c) of
        ImageFile pic fails \<Rightarrow>
          if fails = Some OpenStep then Inl ImageError
          else if is_reversed \<and> fails = Some RotateStep then Inl ImageError
          else if fails = Some ResizeStep then Inl ImageError
          else if fails = Some PasteStep then Inl ImageError
          else Inr (img\<lparr>drawn := drawn img @ [PasteArt pic is_reversed (380, 580) (10, 10)]\<rparr>)
      | NoFile \<Rightarrow>
          Inr (img\<lparr>drawn := drawn img @
                 [RectangleOutline [10, 10, 390, 590] (100, 100, 150) 3,
                  DrawText (200, 300) (name c) (200, 200, 255) ''mm'']\<rparr>))"

definition create_card_image :: "assets \<Rightarrow> card \<Rightarrow> string \<Rightarrow> bool \<Rightarrow> error + encoded" where
  "create_card_image fs c position is_reversed =
     (let img = \<lparr>mode = ''RGB'', dims = (400, 600), background = (30, 30, 40), drawn = []\<rparr>;
          img = (case try_card_art fs c is_reversed img of Inl e \<Rightarrow> img | Inr img' \<Rightarrow> img');
          img = img\<lparr>drawn := drawn img @
                  [RectangleFill [0, 550, 400, 600] (50, 50, 70),
                   DrawText (200, 575) position (255, 255, 200) ''mm'']\<rparr>;
          orient_text = (if is_reversed then ''Reversed'' else ''Upright'');
          img = img\<lparr>drawn := drawn img @ [DrawText (200, 25) orient_text (255, 200, 200) ''mm'']\<rparr>
      in Inr \<lparr>format = ''PNG'', picture = img\<rparr>)"


section \<open>What a command sends\<close>

datatype field = AddField string string bool

record embed =
  e_title :: string
  e_description :: "string option"
  e_color :: string
  e_fields :: "field list"
  e_footer :: "string option"

datatype message =
    SendText string
  | SendEmbed embed
  | SendImage encoded string
  | SendPath string string

text \<open>A command is modelled by the messages it has sent through \<open>ctx.send\<close>, in order,
  the exception it ended with, if any, and the random source it leaves.\<close>

type_synonym outcome = "message list \<times> error option \<times> rng"


section \<open>The command \<open>tarot\<close>\<close>

definition spreads_embed :: embed where
  "spreads_embed =
     \<lparr>e_title = crystal_ball @ '' Available Tarot Spreads'',
      e_description = Some ''Choose a spread type:'',
      e_color = ''purple'',
      e_fields = map (\<lambda>(spread, positions).
                   AddField (title (replace (CHR ''_'') (CHR '' '') spread))
                         (str_nat (length positions) @ '' cards'' @ NL
                            @ [CHR 0x60] @ ''!tarot '' @ spread @ '' [question]'' @ [CHR 0x60])
                         True) SPREADS,
      e_footer = None\<rparr>"

text \<open>\<open>[random.choice([True, False]) for _ in range(num_cards)]\<close>\<close>

fun flip_coins :: "nat \<Rightarrow> rng \<Rightarrow> bool list \<times> rng" where
  "flip_coins 0 g = ([], g)"
| "flip_coins (Suc n) g =
     (let (b, g1) = choice_True_False g; (bs, g2) = flip_coins n g1 in (b # bs, g2))"

text \<open>The loop that sends one image per pair of \<open>zip(drawn_cards, SPREADS[spread_type])\<close>,
  with the orientation \<open>orientations[i]\<close>.\<close>

fun send_images ::
  "assets \<Rightarrow> bool list \<Rightarrow> nat \<Rightarrow> (card \<times> string) list \<Rightarrow> message list \<times> error option" where
  "send_images fs orientations i [] = ([], None)"
| "send_images fs orientations i ((c, position) # rest) =
     (if length orientations \<le> i then ([], Some IndexError)
      else case create_card_image fs c position (orientations ! i) of
             Inl e \<Rightarrow> ([], Some e)
           | Inr img_bytes \<Rightarrow>
               (let (ms, e) = send_images fs orientations (Suc i) rest
                in (SendImage img_bytes (''card_'' @ str_nat (i + 1) @ ''.png'') # ms, e)))"

definition reading_embed :: "string \<Rightarrow> string \<Rightarrow> string option \<Rightarrow> string \<Rightarrow> embed" where
  "reading_embed st reading_text q author =
     \<lparr>e_title = crystal_ball @ '' Tarot Reading - '' @ title (replace (CHR ''_'') (CHR '' '') st),
      e_description = Some (take 4096 reading_text),
      e_color = ''dark_purple'',
      e_fields = (if truthy q then [AddField ''Question'' (the q) False] else []),
      e_footer = Some (''Reading for '' @ author)\<rparr>"

definition tarot_reading ::
  "card list \<Rightarrow> assets \<Rightarrow> string \<Rightarrow> string \<Rightarrow> string option \<Rightarrow> rng \<Rightarrow> outcome" where
  "tarot_reading tarot_cards fs author st q g =
     (case map_of SPREADS st of
        None \<Rightarrow> ([SendEmbed spreads_embed], None, g)
      | Some spread_positions \<Rightarrow>
          (let num_cards = length spread_positions
           in case sample tarot_cards num_cards g of
                (Inl e, g1) \<Rightarrow> ([], Some e, g1)
              | (Inr drawn_cards, g1) \<Rightarrow>
                  (let (orientations, g2) = flip_coins num_cards g1;
                       reading = init_TarotReading drawn_cards st q;
                       (reading_text, g3) = generate_reading reading g2;
                       (ms, e) = send_images fs orientations 0 (zip drawn_cards spread_positions)
                   in (SendEmbed (reading_embed st reading_text q author) # ms, e, g3))))"


section \<open>The command \<open>card\<close>\<close>








section \<open>Loading the deck, and the error handler\<close>

text \<open>
  The deck is \<open>json.load\<close> of the file \<open>data/tarot_cards.json\<close>. The file is a
  parameter: absent, not JSON, or a JSON document. The commands above are modelled on
  the documents that are a list of records with the seven fields of \<open>card\<close>.
\<close>

datatype json =
    JNull
  | JBool bool
  | JNumber int
  | JString string
  | JArray "json list"
  | JObject "(string \<times> json) list"



text \<open>
  The errors discord.py hands to \<open>on_command_error\<close>; an exception raised inside a
  command arrives wrapped in \<open>CommandInvokeError\<close>. The text \<open>str(error)\<close> is the
  library's and is a parameter.
\<close>

datatype command_error = CommandNotFound | MissingRequiredArgument | CommandInvokeError error

definition on_command_error :: "(command_error \<Rightarrow> string) \<Rightarrow> command_error \<Rightarrow> message list" where
  "on_command_error str_of e =
     (case e of
        CommandNotFound \<Rightarrow>
          [SendText (cross_mark @ '' Command not found. Use '' @ [CHR 0x60] @ ''!help''
                     @ [CHR 0x60] @ '' to see available commands.'')]
      | MissingRequiredArgument \<Rightarrow>
          [SendText (cross_mark @ '' Missing required argument. Use '' @ [CHR 0x60] @ ''!help''
                     @ [CHR 0x60] @ '' for command usage.'')]
      | CommandInvokeError err \<Rightarrow>
          [SendText (cross_mark @ '' An error occurred: '' @ str_of e)])"

text \<open>All the user sees of one command: what it sent, then what the handler sends
  when it ended with an exception.\<close>

definition invoke :: "(command_error \<Rightarrow> string) \<Rightarrow> outcome \<Rightarrow> message list" where
  "invoke str_of out =
     (case out of
        (ms, None, g) \<Rightarrow> ms
      | (ms, Some err, g) \<Rightarrow> ms @ on_command_error str_of (CommandInvokeError err))"


section \<open>Auxiliary notions and named inputs\<close>

text \<open>The coin the source flips from outcome number \<open>i\<close> of the random source:
  \<open>[True, False][outcome mod 2]\<close>, that is reversed on an even outcome.\<close>

definition heads :: "rng \<Rightarrow> nat \<Rightarrow> bool" where
  "heads g i = (outcomes g i mod 2 = 0)"

text \<open>The sections of the cards \<open>zs\<close> written with the orientations \<open>os\<close>, in order.\<close>

definition sections :: "(card \<times> string) list \<Rightarrow> bool list \<Rightarrow> string" where
  "sections zs os = concat (map (\<lambda>((c, position), b). card_section c position b) (zip zs os))"

text \<open>The two operations of the placeholder branch of \<open>create_card_image\<close>, and the
  three caption operations that follow the \<open>try\<close> block.\<close>

definition placeholder :: "card \<Rightarrow> draw_op list" where
  "placeholder c =
     [RectangleOutline [10, 10, 390, 590] (100, 100, 150) 3,
      DrawText (200, 300) (name c) (200, 200, 255) ''mm'']"

definition captions :: "string \<Rightarrow> bool \<Rightarrow> draw_op list" where
  "captions position is_reversed =
     [RectangleFill [0, 550, 400, 600] (50, 50, 70),
      DrawText (200, 575) position (255, 255, 200) ''mm'',
      DrawText (200, 25) (if is_reversed then ''Reversed'' else ''Upright'') (255, 200, 200) ''mm'']"

definition zeros :: "nat \<Rightarrow> nat" where
  "zeros i = 0"

definition ones :: "nat \<Rightarrow> nat" where
  "ones i = 1"

definition all_heads :: rng where
  "all_heads = \<lparr>outcomes = zeros, used = 0\<rparr>"

definition all_tails :: rng where
  "all_tails = \<lparr>outcomes = ones, used = 0\<rparr>"

definition the_fool :: card where
  "the_fool = \<lparr>number = IntNumber 0, name = ''The Fool'', arcana = ''major'', suit = None,
     key_words = [''beginnings'', ''innocence''], meaning_up = ''A leap of faith.'',
     meaning_rev = ''Recklessness.''\<rparr>"

definition the_magician :: card where
  "the_magician = \<lparr>number = IntNumber 1, name = ''The Magician'', arcana = ''major'',
     suit = None, key_words = [''willpower'', ''skill''], meaning_up = ''Act on your talents.'',
     meaning_rev = ''Manipulation.''\<rparr>"

definition the_high_priestess :: card where
  "the_high_priestess = \<lparr>number = IntNumber 2, name = ''The High Priestess'', arcana = ''major'',
     suit = None, key_words = [''intuition''], meaning_up = ''Listen within.'',
     meaning_rev = ''Secrets.''\<rparr>"


definition small_deck :: "card list" where
  "small_deck = [the_fool, the_magician, the_high_priestess]"


definition no_assets :: assets where
  "no_assets p = NoFile"

definition broken_assets :: assets where
  "broken_assets p = ImageFile 7 (Some OpenStep)"


definition good_assets :: assets where
  "good_assets p = ImageFile 7 None"

text \<open>The canvas \<open>create_card_image\<close> starts from, and the PNG encoding of that canvas
  after the drawing operations \<open>ops\<close>.\<close>

definition blank_canvas :: image where
  "blank_canvas = \<lparr>mode = ''RGB'', dims = (400, 600), background = (30, 30, 40), drawn = []\<rparr>"

definition png_of :: "draw_op list \<Rightarrow> encoded" where
  "png_of ops = \<lparr>format = ''PNG'', picture = blank_canvas\<lparr>drawn := ops\<rparr>\<rparr>"

text \<open>Pillow fails on the file at a step that \<open>create_card_image\<close> reaches (it rotates
  only a reversed card).\<close>

definition art_fails :: "pil_step option \<Rightarrow> bool \<Rightarrow> bool" where
  "art_fails fails is_reversed =
     (fails = Some OpenStep \<or> (is_reversed \<and> fails = Some RotateStep)
      \<or> fails = Some ResizeStep \<or> fails = Some PasteStep)"





definition job_reading :: TarotReading where
  "job_reading = init_TarotReading small_deck ''three_card'' (Some ''Will I get the job?'')"


section \<open>Facts about the random source and the loops\<close>

lemmas rng_simps = all_heads_def all_tails_def zeros_def ones_def randbelow_def


lemma choice_True_False_eq:
  "choice_True_False g = (heads g (used g), g\<lparr>used := Suc (used g)\<rparr>)"
proof -
  have "outcomes g (used g) mod 2 = 0 \<or> outcomes g (used g) mod 2 = 1" by arith
  then show ?thesis
    by (auto simp: choice_True_False_def randbelow_def heads_def)
qed


lemma reading_loop_eq:
  "reading_loop zs reading g =
     (reading @ sections zs (map (\<lambda>i. heads g (used g + i)) [0..<length zs]),
      g\<lparr>used := used g + length zs\<rparr>)"
proof (induction zs arbitrary: reading g)
  case Nil
  then show ?case by (simp add: sections_def)
next
  case (Cons z zs)
  obtain c position where z: "z = (c, position)" by (cases z)
  have "map (\<lambda>i. heads g (used g + i)) [0..<Suc (length zs)] =
        heads g (used g) # map (\<lambda>i. heads g (Suc (used g) + i)) [0..<length zs]"
    by (simp add: upt_rec [of 0] map_Suc_upt [symmetric] del: upt_Suc)
  then show ?case
    by (simp add: z choice_True_False_eq Cons.IH heads_def sections_def del: upt_Suc)
qed




lemma try_card_art_dims: "try_card_art fs c r img = Inr img' \<Longrightarrow> dims img' = dims img"
  by (auto simp: try_card_art_def split: asset.splits if_splits)



lemma sections_nth:
  assumes "length cs = n" "length ps = n" "length os = n"
  shows "sections (zip cs ps) os
         = concat (map (\<lambda>i. card_section (cs ! i) (ps ! i) (os ! i)) [0..<n])"
proof -
  have "map (\<lambda>((c, position), b). card_section c position b) (zip (zip cs ps) os)
        = map (\<lambda>i. card_section (cs ! i) (ps ! i) (os ! i)) [0..<n]"
    using assms by (intro nth_equalityI) simp_all
  then show ?thesis by (simp add: sections_def)
qed


lemmas image_simps = create_card_image_def try_card_art_def png_of_def blank_canvas_def
  placeholder_def captions_def art_fails_def


section \<open>Facts about strings\<close>








section \<open>Drawing the cards of a spread\<close>





section \<open>Commands that draw nothing\<close>

text \<open>
  C5. For every spread identifier that is not in the catalog, \<open>tarot_reading\<close> makes no
  draw (the random source comes back as it was, whatever the deck) and raises nothing:
  all it sends is the embed that lists the catalog, one field per spread giving its
  number of cards and its command.
\<close>

theorem unknown_spread_sends_catalog:
  assumes "map_of SPREADS st = None"
  shows "tarot_reading deck fs author st q g = ([SendEmbed spreads_embed], None, g)
         \<and> invoke str_of (tarot_reading deck fs author st q g) = [SendEmbed spreads_embed]
         \<and> map (\<lambda>f. case f of AddField n v i \<Rightarrow> v) (e_fields spreads_embed)
             = map (\<lambda>(spread, ps). str_nat (length ps) @ '' cards'' @ NL
                            @ [CHR 0x60] @ ''!tarot '' @ spread @ '' [question]'' @ [CHR 0x60]) SPREADS"
  using assms by (simp add: tarot_reading_def invoke_def spreads_embed_def case_prod_beta)

theorem unknown_spread_sends_catalog_witness:
  "map_of SPREADS ''help'' = None
   \<and> tarot_reading small_deck no_assets ''Ada'' ''help'' None all_heads
       = ([SendEmbed spreads_embed], None, all_heads)"
  using unknown_spread_sends_catalog [of "''help''" small_deck no_assets "''Ada''" None all_heads]
  by (simp add: SPREADS_def)

text \<open>
  C6. For every spread of the catalog with more positions than the deck has cards,
  \<open>tarot_reading\<close> ends with the error of \<open>random.sample\<close> (Python's \<open>ValueError\<close>, the
  program's only form of the insufficient-cards error) before sending anything and
  before any draw; the user sees the error message of \<open>on_command_error\<close> and nothing
  else: no reading, no image.
\<close>

theorem too_few_cards_reports_error:
  assumes "map_of SPREADS st = Some ps" and "length deck < length ps"
  shows "tarot_reading deck fs author st q g = ([], Some ValueError, g)
         \<and> invoke str_of (tarot_reading deck fs author st q g)
             = [SendText (cross_mark @ '' An error occurred: '' @ str_of (CommandInvokeError ValueError))]"
  using assms by (simp add: tarot_reading_def invoke_def sample_def on_command_error_def)

theorem too_few_cards_reports_error_witness:
  "map_of SPREADS ''three_card'' = Some [''Past'', ''Present'', ''Future'']
   \<and> length [the_fool, the_magician] < length [''Past'', ''Present'', ''Future'']
   \<and> tarot_reading [the_fool, the_magician] no_assets ''Ada'' ''three_card'' None all_heads
       = ([], Some ValueError, all_heads)"
  using too_few_cards_reports_error [of "''three_card''" "[''Past'', ''Present'', ''Future'']"
      "[the_fool, the_magician]" no_assets "''Ada''" None all_heads]
  by (simp add: SPREADS_def)


section \<open>The image renderer\<close>

text \<open>
  C9. For every card, position and orientation, and whatever the directory of card
  art holds (no file, a good file or a file Pillow fails on), \<open>create_card_image\<close>
  raises nothing and returns an image encoded as PNG whose canvas is 400 by 600.
\<close>

theorem image_always_png_400_600:
  "\<exists>img. create_card_image fs c position is_reversed = Inr \<lparr>format = ''PNG'', picture = img\<rparr>
         \<and> dims img = (400, 600)"
  by (auto simp: create_card_image_def Let_def dest: try_card_art_dims split: sum.splits)

text \<open>
  C3, as amended. \<open>create_card_image\<close> never raises. When the card-art file is
  missing it draws the placeholder (the bordered rectangle and the centred card name)
  under the captions. When the file exists and a step of loading or compositing it
  fails, the failure is swallowed silently and nothing is drawn in its place: the
  canvas holds the background and the two captions only. When every step succeeds the
  art is pasted.
\<close>

theorem card_art_failure_swallowed:
  "(fs (card_path c) = NoFile \<longrightarrow>
      create_card_image fs c position r = Inr (png_of (placeholder c @ captions position r)))
   \<and> (fs (card_path c) = ImageFile pic fails \<and> art_fails fails r \<longrightarrow>
        try_card_art fs c r blank_canvas = Inl ImageError
        \<and> create_card_image fs c position r = Inr (png_of (captions position r)))
   \<and> (fs (card_path c) = ImageFile pic fails \<and> \<not> art_fails fails r \<longrightarrow>
        create_card_image fs c position r
          = Inr (png_of (PasteArt pic r (380, 580) (10, 10) # captions position r)))"
  by (auto simp: image_simps)

theorem card_art_failure_swallowed_witness:
  "no_assets (card_path the_fool) = NoFile
   \<and> create_card_image no_assets the_fool ''Present'' False
       = Inr (png_of (placeholder the_fool @ captions ''Present'' False))
   \<and> broken_assets (card_path the_fool) = ImageFile 7 (Some OpenStep)
   \<and> art_fails (Some OpenStep) False
   \<and> create_card_image broken_assets the_fool ''Present'' False
       = Inr (png_of (captions ''Present'' False))
   \<and> good_assets (card_path the_fool) = ImageFile 7 None
   \<and> \<not> art_fails None True
   \<and> create_card_image good_assets the_fool ''Present'' True
       = Inr (png_of (PasteArt 7 True (380, 580) (10, 10) # captions ''Present'' True))"
  using card_art_failure_swallowed [of no_assets the_fool "''Present''" False 7 None]
    card_art_failure_swallowed [of broken_assets the_fool "''Present''" False 7 "Some OpenStep"]
    card_art_failure_swallowed [of good_assets the_fool "''Present''" True 7 None]
  by (simp add: no_assets_def broken_assets_def good_assets_def art_fails_def)

text \<open>
  C3, as stated, fails when the file exists and Pillow cannot open it: the image
  returned holds the captions and no operation of the placeholder.
\<close>

theorem failed_art_no_placeholder_counterexample:
  "broken_assets (card_path the_fool) = ImageFile 7 (Some OpenStep)
   \<and> create_card_image broken_assets the_fool ''Present'' False
       = Inr (png_of (captions ''Present'' False))
   \<and> set (placeholder the_fool) \<inter> set (captions ''Present'' False) = {}"
  by (simp add: broken_assets_def image_simps)


section \<open>Loading the deck\<close>




section \<open>Looking a card up\<close>




section \<open>The text of a reading\<close>

text \<open>
  C8, as amended. For every reading that has as many cards as its spread has
  positions (as every reading built by \<open>tarot_reading\<close> has), the text is the heading,
  then the question line exactly when the question is a non-empty string, then one
  section per card in the order of the cards, the section of card \<open>i\<close> being that of
  position \<open>i\<close>.
\<close>

theorem one_section_per_card:
  assumes "length (cards r) = length (positions r)"
  shows "\<exists>os. length os = length (cards r)
           \<and> fst (generate_reading r g)
               = heading (spread_type r) @ question_line (question r)
                 @ concat (map (\<lambda>i. card_section (cards r ! i) (positions r ! i) (os ! i))
                             [0..<length (cards r)])
           \<and> question_line (question r)
               = (case question r of
                    None \<Rightarrow> []
                  | Some s \<Rightarrow> if s = [] then [] else ''**Question:** '' @ s @ NL @ NL)"
proof -
  let ?n = "length (cards r)"
  let ?os = "map (\<lambda>i. heads g (used g + i)) [0..<?n]"
  have "fst (generate_reading r g)
        = heading (spread_type r) @ question_line (question r)
          @ sections (zip (cards r) (positions r)) ?os"
    using assms by (simp add: generate_reading_def reading_loop_eq)
  moreover have "sections (zip (cards r) (positions r)) ?os
        = concat (map (\<lambda>i. card_section (cards r ! i) (positions r ! i) (?os ! i)) [0..<?n])"
    using assms by (intro sections_nth) simp_all
  moreover have "question_line (question r)
               = (case question r of
                    None \<Rightarrow> []
                  | Some s \<Rightarrow> if s = [] then [] else ''**Question:** '' @ s @ NL @ NL)"
    by (simp add: question_line_def split: option.splits)
  moreover have "length ?os = ?n" by simp
  ultimately show ?thesis by metis
qed

theorem one_section_per_card_witness:
  "length (cards job_reading) = length (positions job_reading)
   \<and> (\<exists>os. length os = length (cards job_reading)
        \<and> fst (generate_reading job_reading all_heads)
          = heading (spread_type job_reading) @ question_line (question job_reading)
            @ concat (map (\<lambda>i. card_section (cards job_reading ! i) (positions job_reading ! i) (os ! i))
                        [0..<length (cards job_reading)]))"
proof -
  have h: "length (cards job_reading) = length (positions job_reading)"
    by (simp add: job_reading_def init_TarotReading_def SPREADS_def small_deck_def)
  from one_section_per_card [OF h, of all_heads] h show ?thesis by blast
qed

text \<open>
  C8, as stated, fails on a reading of two cards for the spread \<open>single\<close> with the
  empty string as its question: the text has the section of the first card only, and
  no question line although a question was supplied.
\<close>

theorem truncated_reading_counterexample:
  "length (cards (init_TarotReading [the_fool, the_magician] ''single'' (Some []))) = 2
   \<and> question (init_TarotReading [the_fool, the_magician] ''single'' (Some [])) = Some []
   \<and> fst (generate_reading (init_TarotReading [the_fool, the_magician] ''single'' (Some []))
            all_heads)
       = heading ''single'' @ card_section the_fool ''Present'' True"
  by (simp add: init_TarotReading_def SPREADS_def generate_reading_def question_line_def
      choice_True_False_def rng_simps)

text \<open>
  C1. The claim asks that rendering the text of one reading twice gives the same
  string. \<open>generate_reading\<close> flips a coin for every card, so it does not: for the
  reading of the single card The Fool, the text says Reversed when the random source
  gives an even outcome and Upright when it gives an odd one.
\<close>

theorem generate_reading_depends_on_coin:
  "fst (generate_reading (init_TarotReading [the_fool] ''single'' None) all_heads)
     = heading ''single'' @ card_section the_fool ''Present'' True
   \<and> fst (generate_reading (init_TarotReading [the_fool] ''single'' None) all_tails)
     = heading ''single'' @ card_section the_fool ''Present'' False
   \<and> fst (generate_reading (init_TarotReading [the_fool] ''single'' None) all_heads)
     \<noteq> fst (generate_reading (init_TarotReading [the_fool] ''single'' None) all_tails)"
  by (simp add: generate_reading_def init_TarotReading_def SPREADS_def choice_True_False_def
      rng_simps card_section_def question_line_def)


section \<open>The orientations of the text and of the images\<close>



end
